theory Spec2Isabelle
  imports Main
begin

section \<open>Strings and numbers as the Go runtime has them\<close>

text \<open>
  A Go \<open>string\<close> is a sequence of bytes; it is modelled as \<open>string\<close>, a list of
  8-bit characters. Go's \<open>int\<close> values that occur here (calendar fields, priorities) stay
  far from the 64-bit range, so they are modelled as \<open>int\<close>.
\<close>

definition quot :: "int \<Rightarrow> int \<Rightarrow> int" where
  \<comment> \<open>Go's \<open>/\<close> on integers truncates towards zero\<close>
  "quot a b = sgn a * sgn b * (\<bar>a\<bar> div \<bar>b\<bar>)"

definition rem :: "int \<Rightarrow> int \<Rightarrow> int" where
  \<comment> \<open>Go's \<open>%\<close>: the remainder has the sign of the dividend\<close>
  "rem a b = a - quot a b * b"

fun decimal :: "nat \<Rightarrow> string" where
  "decimal n = (if n < 10 then [''0123456789'' ! n]
                else decimal (n div 10) @ [''0123456789'' ! (n mod 10)])"

declare decimal.simps [simp del]

definition fmt_d :: "bool \<Rightarrow> nat \<Rightarrow> int \<Rightarrow> string" where
  \<comment> \<open>\<open>fmt.Sprintf\<close> of one integer under \<open>%d\<close> (\<open>fmt_d False 0\<close>), \<open>%Nd\<close>
      (\<open>fmt_d False N\<close>, padded with spaces on the left) or \<open>%0Nd\<close> (\<open>fmt_d True N\<close>,
      padded with zeros after the sign)\<close>
  "fmt_d zero width i =
     (let sign = (if i < 0 then ''-'' else '''');
          ds = decimal (nat \<bar>i\<bar>);
          pad = width - (length sign + length ds)
      in if zero then sign @ replicate pad (CHR ''0'') @ ds
         else replicate pad (CHR '' '') @ sign @ ds)"

section \<open>Instants\<close>

text \<open>
  \<open>time.Time\<close> belongs to the Go library. An instant is modelled by what its methods
  answer: one field per method that the program calls. \<open>Format\<close> is the method
  \<open>Format(layout)\<close>, \<open>ISOWeek\<close> the pair \<open>(year, week)\<close>.
\<close>

record Time =
  Year :: int
  Month :: int
  Day :: int
  Hour :: int
  Minute :: int
  Second :: int
  Nanosecond :: int
  YearDay :: int
  Weekday :: int
  Unix :: int
  ISOWeek :: "int \<times> int"
  Format :: "string \<Rightarrow> string"

section \<open>The time formatter\<close>

text \<open>
  \<open>strftime_verb base c\<close> is the inner \<open>switch layout[index+1]\<close> of \<open>strftime\<close>: the
  strings that the case of \<open>c\<close> appends to \<open>output\<close>, and nothing where no case matches.
\<close>

definition strftime_verb :: "Time \<Rightarrow> char \<Rightarrow> string list" where
  "strftime_verb base c =
    (if c = CHR ''a'' then [Format base ''Mon'']
     else if c = CHR ''A'' then [Format base ''Monday'']
     else if c = CHR ''b'' then [Format base ''Jan'']
     else if c = CHR ''B'' then [Format base ''January'']
     else if c = CHR ''c'' then [Format base ''Mon Jan 2 15:04:05 2006'']
     else if c = CHR ''C'' then [fmt_d True 2 (quot (Year base) 100)]
     else if c = CHR ''d'' then [fmt_d True 2 (Day base)]
     else if c = CHR ''D'' then
       [fmt_d True 2 (Month base) @ ''/'' @ fmt_d True 2 (Day base) @ ''/''
          @ fmt_d True 2 (rem (Year base) 100)]
     else if c = CHR ''e'' then [fmt_d False 2 (Day base)]
     else if c = CHR ''f'' then [fmt_d True 6 (quot (Nanosecond base) 1000)]
     else if c = CHR ''F'' then
       [fmt_d True 4 (Year base) @ ''-'' @ fmt_d True 2 (Month base) @ ''-''
          @ fmt_d True 2 (Day base)]
     else if c = CHR ''g'' then [fmt_d True 2 (rem (fst (ISOWeek base)) 100)]
     else if c = CHR ''G'' then [fmt_d True 4 (fst (ISOWeek base))]
     else if c = CHR ''h'' then [Format base ''Jan'']
     else if c = CHR ''H'' then [fmt_d True 2 (Hour base)]
     else if c = CHR ''I'' then
       (if Hour base = 0 \<or> Hour base = 12 then [''12'']
        else [fmt_d True 2 (rem (Hour base) 12)])
     else if c = CHR ''j'' then [fmt_d True 3 (YearDay base)]
     else if c = CHR ''k'' then [fmt_d False 2 (Hour base)]
     else if c = CHR ''l'' then
       (if Hour base = 0 \<or> Hour base = 12 then [''12'']
        else [fmt_d False 2 (rem (Hour base) 12)])
     else if c = CHR ''m'' then [fmt_d True 2 (Month base)]
     else if c = CHR ''M'' then [fmt_d True 2 (Minute base)]
     else if c = CHR ''n'' then [[CHR 0x0A]]
     else if c = CHR ''p'' then (if Hour base < 12 then [''AM''] else [''PM''])
     else if c = CHR ''P'' then (if Hour base < 12 then [''am''] else [''pm''])
     else if c = CHR ''r'' then
       (if Hour base = 0 \<or> Hour base = 12 then [''12'']
        else [fmt_d True 2 (rem (Hour base) 12)])
       @ ['':'' @ fmt_d True 2 (Minute base) @ '':'' @ fmt_d True 2 (Second base)]
       @ (if Hour base < 12 then ['' AM''] else ['' PM''])
     else if c = CHR ''R'' then
       [fmt_d True 2 (Hour base) @ '':'' @ fmt_d True 2 (Minute base)]
     else if c = CHR ''s'' then [fmt_d False 0 (Unix base)]
     else if c = CHR ''S'' then [fmt_d True 2 (Second base)]
     else if c = CHR ''t'' then [[CHR 0x09]]
     else if c = CHR ''T'' then
       [fmt_d True 2 (Hour base) @ '':'' @ fmt_d True 2 (Minute base) @ '':''
          @ fmt_d True 2 (Second base)]
     else if c = CHR ''u'' then
       [fmt_d False 0 (if Weekday base = 0 then 7 else Weekday base)]
     else if c = CHR ''U'' then
       [fmt_d False 0 (quot (YearDay base + 6 - Weekday base) 7)]
     else if c = CHR ''V'' then [fmt_d True 2 (snd (ISOWeek base))]
     else if c = CHR ''w'' then [fmt_d False 0 (Weekday base)]
     else if c = CHR ''W'' then
       [fmt_d False 0
          (quot (YearDay base + 6 - (if Weekday base = 0 then 6 else Weekday base - 1)) 7)]
     else if c = CHR ''x'' then
       [fmt_d True 2 (Month base) @ ''/'' @ fmt_d True 2 (Day base) @ ''/''
          @ fmt_d True 2 (rem (Year base) 100)]
     else if c = CHR ''X'' then
       [fmt_d True 2 (Hour base) @ '':'' @ fmt_d True 2 (Minute base) @ '':''
          @ fmt_d True 2 (Second base)]
     else if c = CHR ''y'' then [fmt_d True 2 (rem (Year base) 100)]
     else if c = CHR ''Y'' then [fmt_d True 4 (Year base)]
     else if c = CHR ''z'' then [Format base ''-0700'']
     else if c = CHR ''Z'' then [Format base ''MST'']
     else if c = CHR ''%'' then [''%'']
     else [])"


text \<open>
  \<open>string(layout[index])\<close> converts a byte, an integer, to a string: Go gives the
  UTF-8 encoding of the code point with that number. A byte below 128 gives itself; a
  byte from 128 on gives two bytes, \<open>0xC0 + b / 64\<close> and \<open>0x80 + b % 64\<close>.
\<close>

definition byte_string :: "char \<Rightarrow> string" where
  "byte_string c =
     (if (of_char c :: nat) < 128 then [c]
      else [char_of (192 + (of_char c :: nat) div 64),
            char_of (128 + (of_char c :: nat) mod 64)])"

text \<open>
  The loop of \<open>strftime\<close> over \<open>index\<close>, as a recursion over the rest of the layout
  from \<open>index\<close> on. \<open>index < length-1\<close> holds exactly when a character follows; the
  \<open>index++\<close> inside the case skips it. A \<open>%\<close> in the last position appends nothing.
  Every other byte is appended through \<open>string(layout[index])\<close>.
\<close>

fun strftime_loop :: "Time \<Rightarrow> string \<Rightarrow> string list" where
  "strftime_loop base [] = []"
| "strftime_loop base [c] = (if c = CHR ''%'' then [] else [byte_string c])"
| "strftime_loop base (c # d # rest) =
     (if c = CHR ''%'' then strftime_verb base d @ strftime_loop base rest
      else byte_string c # strftime_loop base (d # rest))"

definition strftime :: "string \<Rightarrow> Time \<Rightarrow> string" where
  \<comment> \<open>\<open>strings.Join(output, "")\<close>\<close>
  "strftime layout base = concat (strftime_loop base layout)"

text \<open>An instant for the examples: Tuesday 2024-03-05 08:00:00 UTC.\<close>

definition example_time :: Time where
  "example_time =
     \<lparr>Year = 2024, Month = 3, Day = 5, Hour = 8, Minute = 0, Second = 0, Nanosecond = 0,
      YearDay = 65, Weekday = 2, Unix = 1709625600, ISOWeek = (2024, 10),
      Format = (\<lambda>l. if l = ''Mon'' then ''Tue'' else if l = ''Monday'' then ''Tuesday''
                 else if l = ''Jan'' then ''Mar'' else if l = ''January'' then ''March''
                 else if l = ''Mon Jan 2 15:04:05 2006'' then ''Tue Mar 5 08:00:00 2024''
                 else if l = ''-0700'' then ''+0000'' else if l = ''MST'' then ''UTC''
                 else l)\<rparr>"

section \<open>What the Go runtime and the operating system answer\<close>

text \<open>
  The program reads the clock, the command line, the file system and the syslog
  transport. One record holds what they answer during a call; \<open>'v\<close> is the type of the
  values a caller passes as positional arguments.
  \<^item> \<open>unicode_ToLower\<close> is \<open>strings.Map(unicode.ToLower, s)\<close>, the branch of
    \<open>strings.ToLower\<close> for a string with a byte above 127;
  \<^item> \<open>os_Args0\<close> is \<open>os.Args[0]\<close>, \<open>time_Unix00\<close> is \<open>time.Unix(0, 0)\<close>;
  \<^item> \<open>time_Now_UTC\<close> and \<open>time_Now_Local\<close> are \<open>time.Now().UTC()\<close> and
    \<open>time.Now().Local()\<close>;
  \<^item> \<open>syslog_Dial\<close> and \<open>os_OpenFile\<close> return the new handle, or \<open>None\<close> where
    the library returns an error;
  \<^item> \<open>Sprintf_s v\<close> is \<open>fmt.Sprintf("%s", v)\<close>.
\<close>

record 'v runtime =
  unicode_ToLower :: "string \<Rightarrow> string"
  os_Args0 :: string
  time_Unix00 :: Time
  time_Now_UTC :: Time
  time_Now_Local :: Time
  syslog_Dial :: "string \<Rightarrow> string \<Rightarrow> int \<Rightarrow> string \<Rightarrow> nat option"
  os_OpenFile :: "string \<Rightarrow> nat option"
  Sprintf_s :: "'v \<Rightarrow> string"

section \<open>Library functions on strings\<close>

definition ascii_lower :: "char \<Rightarrow> char" where
  "ascii_lower c =
     (case map_of (zip ''ABCDEFGHIJKLMNOPQRSTUVWXYZ'' ''abcdefghijklmnopqrstuvwxyz'') c of
        Some l \<Rightarrow> l | None \<Rightarrow> c)"

definition isASCII :: "string \<Rightarrow> bool" where
  "isASCII s = (\<forall>c\<in>set s. (of_char c :: nat) < 128)"

definition ToLower :: "'v runtime \<Rightarrow> string \<Rightarrow> string" where
  \<comment> \<open>\<open>strings.ToLower\<close>: bytewise on an ASCII string, by the Unicode tables otherwise\<close>
  "ToLower env s = (if isASCII s then map ascii_lower s else unicode_ToLower env s)"

text \<open>
  \<open>strings.TrimSpace\<close> and \<open>bytes.TrimSpace\<close> remove the leading and the trailing
  runes that \<open>unicode.IsSpace\<close> accepts. \<open>space_runes\<close> lists their UTF-8 encodings:
  the six ASCII ones, U+0085, U+00A0, U+1680, U+2000 to U+200A, U+2028, U+2029, U+202F,
  U+205F and U+3000.
\<close>

definition space_runes :: "string list" where
  "space_runes =
     [[CHR 0x09], [CHR 0x0A], [CHR 0x0B], [CHR 0x0C], [CHR 0x0D], [CHR 0x20],
      [CHR 0xC2, CHR 0x85], [CHR 0xC2, CHR 0xA0], [CHR 0xE1, CHR 0x9A, CHR 0x80],
      [CHR 0xE2, CHR 0x80, CHR 0x80], [CHR 0xE2, CHR 0x80, CHR 0x81],
      [CHR 0xE2, CHR 0x80, CHR 0x82], [CHR 0xE2, CHR 0x80, CHR 0x83],
      [CHR 0xE2, CHR 0x80, CHR 0x84], [CHR 0xE2, CHR 0x80, CHR 0x85],
      [CHR 0xE2, CHR 0x80, CHR 0x86], [CHR 0xE2, CHR 0x80, CHR 0x87],
      [CHR 0xE2, CHR 0x80, CHR 0x88], [CHR 0xE2, CHR 0x80, CHR 0x89],
      [CHR 0xE2, CHR 0x80, CHR 0x8A], [CHR 0xE2, CHR 0x80, CHR 0xA8],
      [CHR 0xE2, CHR 0x80, CHR 0xA9], [CHR 0xE2, CHR 0x80, CHR 0xAF],
      [CHR 0xE2, CHR 0x81, CHR 0x9F], [CHR 0xE3, CHR 0x80, CHR 0x80]]"

definition leading :: "string list \<Rightarrow> string \<Rightarrow> nat" where
  \<comment> \<open>the length of the first of the patterns that the string starts with, 0 if none does\<close>
  "leading ps s =
     (case find (\<lambda>p. p \<noteq> [] \<and> take (length p) s = p) ps of
        None \<Rightarrow> 0 | Some p \<Rightarrow> length p)"

lemma leading_bound: "leading ps s \<le> length s"
proof (cases "find (\<lambda>p. p \<noteq> [] \<and> take (length p) s = p) ps")
  case None
  then show ?thesis by (simp add: leading_def)
next
  case (Some p)
  then have "take (length p) s = p" by (auto simp: find_Some_iff)
  then have "length (take (length p) s) = length p" by simp
  then have "length p \<le> length s" by simp
  with Some show ?thesis by (simp add: leading_def)
qed

function TrimLeft :: "string list \<Rightarrow> string \<Rightarrow> string" where
  "TrimLeft ps s = (if leading ps s = 0 then s else TrimLeft ps (drop (leading ps s) s))"
  by pat_completeness auto
termination
proof (relation "measure (\<lambda>(ps, s). length s)")
  show "wf (measure (\<lambda>(ps, s). length s))" by simp
next
  fix ps :: "string list" and s :: string
  assume "leading ps s \<noteq> 0"
  moreover have "leading ps s \<le> length s" by (rule leading_bound)
  ultimately show "((ps, drop (leading ps s) s), (ps, s)) \<in> measure (\<lambda>(ps, s). length s)"
    by simp
qed

declare TrimLeft.simps [simp del]

definition TrimSpace :: "string \<Rightarrow> string" where
  "TrimSpace s = rev (TrimLeft (map rev space_runes) (rev (TrimLeft space_runes s)))"

definition Base :: "string \<Rightarrow> string" where
  \<comment> \<open>\<open>filepath.Base\<close> with \<open>/\<close> as the separator: the last element of the path\<close>
  "Base path =
     (if path = [] then ''.''
      else let stripped = rev (dropWhile (\<lambda>c. c = CHR ''/'') (rev path));
               element = rev (takeWhile (\<lambda>c. c \<noteq> CHR ''/'') (rev stripped))
           in if element = [] then ''/'' else element)"

section \<open>The regular expressions\<close>

text \<open>
  Each expression of the program is modelled by a matcher that tries it at the start
  of a string and returns the submatches and the rest behind the match. The expressions
  are such that the greedy choice is the only one that can succeed: every repetition is
  followed by a character outside its class, so a shorter repetition cannot match.
  \<open>FindAllStringSubmatch\<close> takes the leftmost match, goes on behind it, and moves one
  character on where there is none.
\<close>

definition regexp_space :: "char \<Rightarrow> bool" where
  \<comment> \<open>the class \<open>\s\<close>: tab, newline, form feed, carriage return, space\<close>
  "regexp_space c = (c \<in> set [CHR 0x09, CHR 0x0A, CHR 0x0C, CHR 0x0D, CHR 0x20])"

definition regexp_digit :: "char \<Rightarrow> bool" where
  "regexp_digit c = (c \<in> set ''0123456789'')"

definition expect :: "char \<Rightarrow> string \<Rightarrow> string option" where
  "expect c s = (case s of [] \<Rightarrow> None | d # rest \<Rightarrow> if d = c then Some rest else None)"

definition match_name :: "string \<Rightarrow> (string \<times> string) option" where
  \<comment> \<open>\<open>(file|console|syslog|option)\<close>\<close>
  "match_name s =
     map_option (\<lambda>n. (n, drop (length n) s))
       (find (\<lambda>n. take (length n) s = n) [''file'', ''console'', ''syslog'', ''option''])"

definition match_directive :: "string \<Rightarrow> (string \<times> string \<times> string) option" where
  \<comment> \<open>\<open>(file|console|syslog|option)\s*\(([^\)]*)\)\<close>: the name, the text between
      the parentheses and the rest\<close>
  "match_directive s =
     (case match_name s of None \<Rightarrow> None | Some (name, r1) \<Rightarrow>
       (case expect (CHR ''('') (dropWhile regexp_space r1) of None \<Rightarrow> None | Some r2 \<Rightarrow>
         (case expect (CHR '')'') (dropWhile (\<lambda>c. c \<noteq> CHR '')'') r2) of None \<Rightarrow> None
          | Some r3 \<Rightarrow> Some (name, takeWhile (\<lambda>c. c \<noteq> CHR '')'') r2, r3))))"

lemma expect_length: "expect c s = Some r \<Longrightarrow> length r < length s"
  by (auto simp: expect_def split: list.splits if_splits)

lemma match_name_length: "match_name s = Some (n, r) \<Longrightarrow> length r \<le> length s"
  by (auto simp: match_name_def)

lemma match_directive_length:
  assumes "match_directive s = Some (n, b, r)"
  shows "length r < length s"
proof -
  from assms obtain r1 r2 where
    1: "match_name s = Some (n, r1)" and
    2: "expect (CHR ''('') (dropWhile regexp_space r1) = Some r2" and
    3: "expect (CHR '')'') (dropWhile (\<lambda>c. c \<noteq> CHR '')'') r2) = Some r"
    by (auto simp: match_directive_def split: option.splits)
  have "length r < length (dropWhile (\<lambda>c. c \<noteq> CHR '')'') r2)"
    using 3 by (rule expect_length)
  also have "\<dots> \<le> length r2" by (rule length_dropWhile_le)
  also have "\<dots> < length (dropWhile regexp_space r1)" using 2 by (rule expect_length)
  also have "\<dots> \<le> length r1" by (rule length_dropWhile_le)
  also have "\<dots> \<le> length s" using 1 by (rule match_name_length)
  finally show ?thesis .
qed

function FindAll_directives :: "string \<Rightarrow> (string \<times> string) list" where
  "FindAll_directives s =
     (if s = [] then []
      else case match_directive s of
             Some (name, body, rest) \<Rightarrow> (name, body) # FindAll_directives rest
           | None \<Rightarrow> FindAll_directives (tl s))"
  by pat_completeness auto
termination
  by (relation "measure length") (auto dest: match_directive_length)

declare FindAll_directives.simps [simp del]

definition key_char :: "char \<Rightarrow> bool" where
  \<comment> \<open>the class \<open>[^:=,\s]\<close>\<close>
  "key_char c = (\<not> (c = CHR '':'' \<or> c = CHR ''='' \<or> c = CHR '','' \<or> regexp_space c))"

definition value_char :: "char \<Rightarrow> bool" where
  \<comment> \<open>the class \<open>[^,\s]\<close>\<close>
  "value_char c = (\<not> (c = CHR '','' \<or> regexp_space c))"

definition match_option :: "string \<Rightarrow> (string \<times> string \<times> string) option" where
  \<comment> \<open>\<open>([^:=,\s]+)\s*[:=]\s*([^,\s]+)\<close>: the key, the value and the rest\<close>
  "match_option s =
     (let key = takeWhile key_char s in
      if key = [] then None
      else case dropWhile regexp_space (dropWhile key_char s) of
             [] \<Rightarrow> None
           | c # r \<Rightarrow>
               if c = CHR '':'' \<or> c = CHR ''='' then
                 (let r' = dropWhile regexp_space r; val = takeWhile value_char r' in
                  if val = [] then None else Some (key, val, dropWhile value_char r'))
               else None)"

lemma match_option_length:
  assumes "match_option s = Some (k, v, r)"
  shows "length r < length s"
proof -
  from assms obtain c r1 where
    1: "dropWhile regexp_space (dropWhile key_char s) = c # r1" and
    2: "r = dropWhile value_char (dropWhile regexp_space r1)"
    by (auto simp: match_option_def Let_def split: if_splits list.splits)
  have "length r \<le> length (dropWhile regexp_space r1)"
    unfolding 2 by (rule length_dropWhile_le)
  also have "\<dots> \<le> length r1" by (rule length_dropWhile_le)
  also have "\<dots> < length (dropWhile regexp_space (dropWhile key_char s))"
    unfolding 1 by simp
  also have "\<dots> \<le> length (dropWhile key_char s)" by (rule length_dropWhile_le)
  also have "\<dots> \<le> length s" by (rule length_dropWhile_le)
  finally show ?thesis .
qed

function FindAll_options :: "string \<Rightarrow> (string \<times> string) list" where
  "FindAll_options s =
     (if s = [] then []
      else case match_option s of
             Some (key, val, rest) \<Rightarrow> (key, val) # FindAll_options rest
           | None \<Rightarrow> FindAll_options (tl s))"
  by pat_completeness auto
termination
  by (relation "measure length") (auto dest: match_option_length)

declare FindAll_options.simps [simp del]

definition has_port :: "string \<Rightarrow> bool" where
  \<comment> \<open>\<open>:\d+$\<close> matches: the string ends in a colon and at least one digit\<close>
  "has_port s =
     (takeWhile regexp_digit (rev s) \<noteq> [] \<and>
      expect (CHR '':'') (dropWhile regexp_digit (rev s)) \<noteq> None)"

definition match_key :: "string \<Rightarrow> (string \<times> string) option" where
  \<comment> \<open>\<open>"([^"]+)"\s*:\<close>: the text between the quotes and the rest\<close>
  "match_key s =
     (case expect (CHR 0x22) s of None \<Rightarrow> None | Some r1 \<Rightarrow>
       (let key = takeWhile (\<lambda>c. c \<noteq> CHR 0x22) r1 in
        if key = [] then None
        else case expect (CHR 0x22) (dropWhile (\<lambda>c. c \<noteq> CHR 0x22) r1) of None \<Rightarrow> None
             | Some r2 \<Rightarrow>
                (case expect (CHR '':'') (dropWhile regexp_space r2) of None \<Rightarrow> None
                 | Some r3 \<Rightarrow> Some (key, r3))))"

lemma match_key_length:
  assumes "match_key s = Some (k, r)"
  shows "length r < length s"
proof -
  from assms obtain r1 r2 where
    1: "expect (CHR 0x22) s = Some r1" and
    2: "expect (CHR 0x22) (dropWhile (\<lambda>c. c \<noteq> CHR 0x22) r1) = Some r2" and
    3: "expect (CHR '':'') (dropWhile regexp_space r2) = Some r"
    by (auto simp: match_key_def Let_def split: option.splits if_splits)
  have "length r < length (dropWhile regexp_space r2)" using 3 by (rule expect_length)
  also have "\<dots> \<le> length r2" by (rule length_dropWhile_le)
  also have "\<dots> < length (dropWhile (\<lambda>c. c \<noteq> CHR 0x22) r1)" using 2 by (rule expect_length)
  also have "\<dots> \<le> length r1" by (rule length_dropWhile_le)
  also have "\<dots> < length s" using 1 by (rule expect_length)
  finally show ?thesis .
qed

function ReplaceAll_keys :: "string \<Rightarrow> string" where
  \<comment> \<open>\<open>consoleColorizer.ReplaceAllString(s, "\"\x1b[37m$1\x1b[0m\":")\<close>\<close>
  "ReplaceAll_keys s =
     (if s = [] then []
      else case match_key s of
             Some (key, rest) \<Rightarrow>
               [CHR 0x22, CHR 0x1B] @ ''[37m'' @ key @ [CHR 0x1B] @ ''[0m'' @ [CHR 0x22] @ '':''
                 @ ReplaceAll_keys rest
           | None \<Rightarrow> hd s # ReplaceAll_keys (tl s))"
  by pat_completeness auto
termination
  by (relation "measure length") (auto dest: match_key_length)

declare ReplaceAll_keys.simps [simp del]

section \<open>The logger\<close>

definition TIME_NONE :: int where [simp]: "TIME_NONE = 0"
definition TIME_DATE :: int where [simp]: "TIME_DATE = 1"
definition TIME_TIMESTAMP :: int where [simp]: "TIME_TIMESTAMP = 2"

text \<open>
  \<open>syslog.Priority\<close> is an integer. The severities of \<open>log/syslog\<close> count from
  \<open>LOG_EMERG = 0\<close>; the facilities are the facility number shifted left by three bits,
  from \<open>LOG_KERN = 0\<close>.
\<close>

definition LOG_EMERG :: int where [simp]: "LOG_EMERG = 0"
definition LOG_ERR :: int where [simp]: "LOG_ERR = 3"
definition LOG_WARNING :: int where [simp]: "LOG_WARNING = 4"
definition LOG_INFO :: int where [simp]: "LOG_INFO = 6"
definition LOG_DEBUG :: int where [simp]: "LOG_DEBUG = 7"

definition LOG_KERN :: int where [simp]: "LOG_KERN = 0"
definition LOG_USER :: int where [simp]: "LOG_USER = 8"
definition LOG_DAEMON :: int where [simp]: "LOG_DAEMON = 24"
definition LOG_LOCAL0 :: int where [simp]: "LOG_LOCAL0 = 128"
definition LOG_LOCAL1 :: int where [simp]: "LOG_LOCAL1 = 136"
definition LOG_LOCAL2 :: int where [simp]: "LOG_LOCAL2 = 144"
definition LOG_LOCAL3 :: int where [simp]: "LOG_LOCAL3 = 152"
definition LOG_LOCAL4 :: int where [simp]: "LOG_LOCAL4 = 160"
definition LOG_LOCAL5 :: int where [simp]: "LOG_LOCAL5 = 168"
definition LOG_LOCAL6 :: int where [simp]: "LOG_LOCAL6 = 176"
definition LOG_LOCAL7 :: int where [simp]: "LOG_LOCAL7 = 184"

definition facilities :: "string \<rightharpoonup> int" where
  "facilities = map_of
     [(''user'', LOG_USER), (''daemon'', LOG_DAEMON),
      (''local0'', LOG_LOCAL0), (''local1'', LOG_LOCAL1), (''local2'', LOG_LOCAL2),
      (''local3'', LOG_LOCAL3), (''local4'', LOG_LOCAL4), (''local5'', LOG_LOCAL5),
      (''local6'', LOG_LOCAL6), (''local7'', LOG_LOCAL7)]"

definition severities :: "string \<rightharpoonup> int" where
  "severities = map_of
     [(''error'', LOG_ERR), (''warning'', LOG_WARNING), (''info'', LOG_INFO),
      (''debug'', LOG_DEBUG)]"

definition severityLabels :: "int \<rightharpoonup> string" where
  "severityLabels = map_of
     [(LOG_ERR, ''ERRO ''), (LOG_WARNING, ''WARN ''), (LOG_INFO, ''INFO ''),
      (LOG_DEBUG, ''DBUG '')]"

definition severityColors :: "int \<rightharpoonup> string" where
  "severityColors = map_of
     [(LOG_ERR, CHR 0x1B # ''[31m''), (LOG_WARNING, CHR 0x1B # ''[33m''),
      (LOG_INFO, CHR 0x1B # ''[36m''), (LOG_DEBUG, CHR 0x1B # ''[32m'')]"

definition priority_at :: "('k \<rightharpoonup> int) \<Rightarrow> 'k \<Rightarrow> int" where
  \<comment> \<open>reading a Go map of priorities: a missing key gives the zero value\<close>
  "priority_at m k = (case m k of None \<Rightarrow> 0 | Some p \<Rightarrow> p)"

definition string_at :: "('k \<rightharpoonup> string) \<Rightarrow> 'k \<Rightarrow> string" where
  \<comment> \<open>reading a Go map of strings: a missing key gives the empty string\<close>
  "string_at m k = (case m k of None \<Rightarrow> [] | Some s \<Rightarrow> s)"

datatype stream = Stdout | Stderr

text \<open>
  The struct \<open>ULog\<close>. A handle is \<open>None\<close> where the Go pointer or interface is
  \<open>nil\<close>; an open file or syslog connection is named by a number. \<open>consoleColorizer\<close>
  holds the source text of the compiled expression. The embedded mutex has no field:
  one caller at a time is modelled, and taking and releasing it are events.
\<close>

record ULog =
  "file" :: bool
  console :: bool
  syslog :: bool
  fileHandle :: "nat option"
  filePath :: string
  filePreviousPath :: string
  fileTime :: int
  fileSeverity :: bool
  consoleHandle :: "stream option"
  consoleTime :: int
  consoleSeverity :: bool
  consoleColors :: bool
  consoleColorizer :: "string option"
  syslogHandle :: "nat option"
  syslogRemote :: string
  syslogName :: string
  syslogFacility :: int
  optionUTC :: bool
  lastCheck :: Time
  level :: int

text \<open>
  A positional argument is a value of the caller or a text that the logger has
  produced itself. The events are the calls that leave the logger: on the mutex, the
  files, the syslog connection and the console. A write records the format string and
  the arguments that \<open>fmt\<close> receives.
\<close>

datatype 'v arg = Given 'v | Text string

datatype 'v event =
    Lock
  | Unlock
  | SyslogClose nat
  | FileClose nat
  | SyslogDial string string int string
  | SyslogSend nat int string "'v arg list"
  | MkdirAll_Dir string
  | OpenFile string
  | FileWrite nat string "'v arg list"
  | ConsoleWrite stream string "'v arg list"

definition Close :: "ULog \<Rightarrow> ULog \<times> 'v event list" where
  "Close this =
     (this\<lparr>syslogHandle := None, fileHandle := None\<rparr>,
      [Lock]
      @ (case syslogHandle this of None \<Rightarrow> [] | Some h \<Rightarrow> [SyslogClose h])
      @ (case fileHandle this of None \<Rightarrow> [] | Some h \<Rightarrow> [FileClose h])
      @ [Unlock])"

definition truthy :: "string \<Rightarrow> bool" where
  \<comment> \<open>the test \<open>== "1" || == "true" || == "on" || == "yes"\<close> that the parser repeats\<close>
  "truthy v = (v = ''1'' \<or> v = ''true'' \<or> v = ''on'' \<or> v = ''yes'')"

definition Load_file :: "'v runtime \<Rightarrow> ULog \<Rightarrow> string \<times> string \<Rightarrow> ULog" where
  \<comment> \<open>one option of a \<open>file\<close> directive\<close>
  "Load_file env this option =
     (let key = ToLower env (fst option) in
      if key = ''path'' then this\<lparr>filePath := snd option\<rparr>
      else if key = ''time'' then
        (let v = ToLower env (snd option) in
         if v = ''stamp'' \<or> v = ''timestamp'' then this\<lparr>fileTime := TIME_TIMESTAMP\<rparr>
         else if \<not> truthy v then this\<lparr>fileTime := TIME_NONE\<rparr>
         else this)
      else if key = ''severity'' then
        (let v = ToLower env (snd option) in
         if \<not> truthy v then this\<lparr>fileSeverity := False\<rparr> else this)
      else this)"

definition Load_console :: "'v runtime \<Rightarrow> ULog \<Rightarrow> string \<times> string \<Rightarrow> ULog" where
  \<comment> \<open>one option of a \<open>console\<close> directive\<close>
  "Load_console env this option =
     (let v = ToLower env (snd option); key = ToLower env (fst option) in
      if key = ''output'' then
        (if v = ''stdout'' then this\<lparr>consoleHandle := Some Stdout\<rparr> else this)
      else if key = ''time'' then
        (if v = ''stamp'' \<or> v = ''timestamp'' then this\<lparr>consoleTime := TIME_TIMESTAMP\<rparr>
         else if \<not> truthy v then this\<lparr>consoleTime := TIME_NONE\<rparr>
         else this)
      else if key = ''severity'' then
        (if \<not> truthy v then this\<lparr>consoleSeverity := False\<rparr> else this)
      else if key = ''colors'' then
        (if \<not> truthy v then this\<lparr>consoleColors := False\<rparr> else this)
      else this)"

definition Load_syslog :: "'v runtime \<Rightarrow> ULog \<Rightarrow> string \<times> string \<Rightarrow> ULog" where
  \<comment> \<open>one option of a \<open>syslog\<close> directive\<close>
  "Load_syslog env this option =
     (let key = ToLower env (fst option) in
      if key = ''remote'' then
        this\<lparr>syslogRemote :=
               (if \<not> has_port (snd option) then snd option @ '':514'' else snd option)\<rparr>
      else if key = ''name'' then this\<lparr>syslogName := snd option\<rparr>
      else if key = ''facility'' then
        this\<lparr>syslogFacility := priority_at facilities (ToLower env (snd option))\<rparr>
      else this)"

definition Load_option :: "'v runtime \<Rightarrow> ULog \<Rightarrow> string \<times> string \<Rightarrow> ULog" where
  \<comment> \<open>one option of an \<open>option\<close> directive\<close>
  "Load_option env this option =
     (let v = ToLower env (snd option); key = ToLower env (fst option) in
      if key = ''utc'' then (if truthy v then this\<lparr>optionUTC := True\<rparr> else this)
      else if key = ''level'' then this\<lparr>level := priority_at severities (ToLower env v)\<rparr>
      else this)"

definition Load_directive :: "'v runtime \<Rightarrow> ULog \<Rightarrow> string \<times> string \<Rightarrow> ULog" where
  \<comment> \<open>the body of the outer loop: one directive, \<open>target[1]\<close> and \<open>target[2]\<close>\<close>
  "Load_directive env this target =
     (let name = ToLower env (fst target) in
      if name = ''file'' then
        (let this' = foldl (Load_file env) (this\<lparr>file := True\<rparr>)
                       (FindAll_options (snd target))
         in if filePath this' = [] then this'\<lparr>file := False\<rparr> else this')
      else if name = ''console'' then
        foldl (Load_console env) (this\<lparr>console := True\<rparr>) (FindAll_options (snd target))
      else if name = ''syslog'' then
        foldl (Load_syslog env) (this\<lparr>syslog := True\<rparr>) (FindAll_options (snd target))
      else if name = ''option'' then
        foldl (Load_option env) this (FindAll_options (snd target))
      else this)"

definition Load_defaults :: "'v runtime \<Rightarrow> ULog \<Rightarrow> ULog" where
  \<comment> \<open>the assignments before the loop\<close>
  "Load_defaults env this =
     this\<lparr>file := False, filePath := [], filePreviousPath := [], fileTime := TIME_DATE,
          fileSeverity := True, console := False, consoleTime := TIME_DATE,
          consoleSeverity := True, consoleColors := True,
          consoleColorizer := Some (CHR 0x22 # ''([^'' @ [CHR 0x22] @ '']+)'' @ [CHR 0x22]
                                      @ [CHR 0x5C] @ ''s*:''),
          consoleHandle := Some Stderr, syslog := False, syslogRemote := [],
          syslogName := Base (os_Args0 env), syslogFacility := LOG_DAEMON,
          optionUTC := False, lastCheck := time_Unix00 env, level := LOG_INFO\<rparr>"

definition Load :: "'v runtime \<Rightarrow> ULog \<Rightarrow> string \<Rightarrow> ULog \<times> 'v event list" where
  "Load env this target =
     (let closed = Close this
      in (foldl (Load_directive env) (Load_defaults env (fst closed))
            (FindAll_directives target),
          snd closed @ [Lock, Unlock]))"

definition SetLevel :: "'v runtime \<Rightarrow> ULog \<Rightarrow> string \<Rightarrow> ULog" where
  "SetLevel env this name =
     (let l = ToLower env name in
      if l = ''error'' then this\<lparr>level := LOG_ERR\<rparr>
      else if l = ''warning'' then this\<lparr>level := LOG_WARNING\<rparr>
      else if l = ''info'' then this\<lparr>level := LOG_INFO\<rparr>
      else if l = ''debug'' then this\<lparr>level := LOG_DEBUG\<rparr>
      else this)"

text \<open>
  For the statements about the parser: \<open>key_values env name key target\<close> lists, in the
  order of the descriptor, the values that the directives called \<open>name\<close> give to
  \<open>key\<close>, both compared after \<open>ToLower\<close> as \<open>Load\<close> compares them.
\<close>

definition option_values :: "'v runtime \<Rightarrow> string \<Rightarrow> string \<Rightarrow> string list" where
  "option_values env key body =
     concat (map (\<lambda>option. if ToLower env (fst option) = key then [snd option] else [])
               (FindAll_options body))"

definition key_values :: "'v runtime \<Rightarrow> string \<Rightarrow> string \<Rightarrow> string \<Rightarrow> string list" where
  "key_values env name key target =
     concat (map (\<lambda>d. if ToLower env (fst d) = name then option_values env key (snd d)
                       else [])
               (FindAll_directives target))"

section \<open>Emitting an event\<close>

text \<open>
  The payload \<open>xlayout\<close> is an \<open>interface{}\<close>; \<open>log\<close> looks only at its kind:
  \<^item> \<open>Nil\<close> is the nil interface, for which \<open>reflect.TypeOf\<close> returns nil;
  \<^item> \<open>Str s\<close> is a value of type \<open>string\<close>;
  \<^item> \<open>NamedStr s\<close> is a value of a defined type whose kind is \<open>reflect.String\<close>:
    the assertion \<open>xlayout.(string)\<close> fails on it;
  \<^item> \<open>MapVal j\<close> is a value of kind \<open>reflect.Map\<close>, given by what
    \<open>json.Encoder.Encode\<close> does with it: \<open>Some b\<close> when it writes the bytes \<open>b\<close>,
    \<open>None\<close> when it returns an error;
  \<^item> \<open>Other\<close> is a value of any other kind.
\<close>

datatype payload = Nil | Str string | NamedStr string | MapVal "string option" | Other

datatype panic = NilDereference | FailedTypeAssertion

definition log_layout ::
  "payload \<Rightarrow> 'v arg list \<Rightarrow> panic + (string \<times> 'v arg list)" where
  \<comment> \<open>the switch on \<open>reflect.TypeOf(xlayout).Kind()\<close> and the trimming behind it:
      the layout and the arguments that the sinks receive\<close>
  "log_layout xlayout a =
     (case xlayout of
        Nil \<Rightarrow> Inl NilDereference
      | MapVal None \<Rightarrow> Inr (TrimSpace [], a)
      | MapVal (Some buffer) \<Rightarrow> Inr (TrimSpace ''%s'', [Text (TrimSpace buffer)])
      | Str s \<Rightarrow> Inr (TrimSpace s, a)
      | NamedStr s \<Rightarrow> Inl FailedTypeAssertion
      | Other \<Rightarrow> Inr (TrimSpace [], a))"

definition log_syslog ::
  "'v runtime \<Rightarrow> ULog \<Rightarrow> int \<Rightarrow> string \<Rightarrow> 'v arg list \<Rightarrow> ULog \<times> 'v event list" where
  \<comment> \<open>the block \<open>if this.syslog\<close>. The second test of the handle, under the lock,
      repeats the first, no other caller being modelled.\<close>
  "log_syslog env this severity layout a =
     (if \<not> syslog this then (this, [])
      else
        let protocol = (if syslogRemote this \<noteq> [] then ''udp'' else []);
            dialed =
              (if syslogHandle this = None then
                 (this\<lparr>syslogHandle :=
                         syslog_Dial env protocol (syslogRemote this) (syslogFacility this)
                           (syslogName this)\<rparr>,
                  [Lock,
                   SyslogDial protocol (syslogRemote this) (syslogFacility this)
                     (syslogName this),
                   Unlock])
               else (this, []))
        in (fst dialed,
            snd dialed @
            (case syslogHandle (fst dialed) of
               None \<Rightarrow> []
             | Some h \<Rightarrow>
                 if severity = LOG_ERR \<or> severity = LOG_WARNING \<or> severity = LOG_INFO
                    \<or> severity = LOG_DEBUG
                 then [SyslogSend h severity layout a] else [])))"

definition time_Second :: int where
  \<comment> \<open>\<open>time.Second\<close>, a \<open>time.Duration\<close> in nanoseconds\<close>
  "time_Second = 1000000000"

definition Sub :: "Time \<Rightarrow> Time \<Rightarrow> int" where
  \<comment> \<open>\<open>t.Sub(u)\<close> for instants without a monotonic clock reading: the difference in
      nanoseconds, held within the range of an \<open>int64\<close>\<close>
  "Sub t u =
     (let d = (Unix t - Unix u) * time_Second + (Nanosecond t - Nanosecond u)
      in if d < - (2 ^ 63) then - (2 ^ 63) else if 2 ^ 63 - 1 < d then 2 ^ 63 - 1 else d)"

definition time_prefix :: "int \<Rightarrow> Time \<Rightarrow> string" where
  \<comment> \<open>the \<open>switch\<close> on \<open>fileTime\<close> or \<open>consoleTime\<close>\<close>
  "time_prefix mode now =
     (if mode = TIME_DATE then
        fmt_d True 4 (Year now) @ ''-'' @ fmt_d True 2 (Month now) @ ''-''
          @ fmt_d True 2 (Day now) @ '' '' @ fmt_d True 2 (Hour now) @ '':''
          @ fmt_d True 2 (Minute now) @ '':'' @ fmt_d True 2 (Second now) @ '' ''
      else if mode = TIME_TIMESTAMP then fmt_d False 0 (Unix now) @ '' ''
      else [])"

definition file_rotate :: "ULog \<Rightarrow> string \<Rightarrow> ULog \<times> 'v event list" where
  \<comment> \<open>the block \<open>if path != this.filePreviousPath\<close>\<close>
  "file_rotate this path =
     (if path \<noteq> filePreviousPath this then
        (case fileHandle this of
           None \<Rightarrow> (this\<lparr>filePreviousPath := path\<rparr>, [])
         | Some h \<Rightarrow> (this\<lparr>fileHandle := None, filePreviousPath := path\<rparr>, [FileClose h]))
      else (this, []))"

definition file_open :: "'v runtime \<Rightarrow> ULog \<Rightarrow> string \<Rightarrow> ULog \<times> 'v event list" where
  \<comment> \<open>the block \<open>if this.fileHandle == nil\<close> behind it; \<open>MkdirAll_Dir path\<close> is
      the call \<open>os.MkdirAll(filepath.Dir(path), 0755)\<close>\<close>
  "file_open env this path =
     (if fileHandle this = None then
        (this\<lparr>fileHandle := os_OpenFile env path\<rparr>, [MkdirAll_Dir path, OpenFile path])
      else (this, []))"

definition file_check :: "'v runtime \<Rightarrow> ULog \<Rightarrow> Time \<Rightarrow> ULog \<times> 'v event list" where
  \<comment> \<open>the rotation check, from \<open>this.lastCheck = now\<close> to \<open>this.Unlock()\<close>\<close>
  "file_check env this now =
     (let path = strftime (filePath this) now;
          rotated = file_rotate (this\<lparr>lastCheck := now\<rparr>) path;
          opened = file_open env (fst rotated) path
      in (fst opened, [Lock] @ snd rotated @ snd opened @ [Unlock]))"

definition log_file ::
  "'v runtime \<Rightarrow> ULog \<Rightarrow> Time \<Rightarrow> int \<Rightarrow> string \<Rightarrow> 'v arg list \<Rightarrow> ULog \<times> 'v event list"
  where
  \<comment> \<open>the block \<open>if this.file\<close>\<close>
  "log_file env this now severity layout a =
     (if \<not> file this then (this, [])
      else
        let checked =
              (if time_Second \<le> Sub now (lastCheck this) \<or> fileHandle this = None
               then file_check env this now else (this, []))
        in (fst checked,
            snd checked @
            (case fileHandle (fst checked) of
               None \<Rightarrow> []
             | Some h \<Rightarrow>
                 [Lock,
                  FileWrite h
                    (time_prefix (fileTime (fst checked)) now
                     @ (if fileSeverity (fst checked) then string_at severityLabels severity
                        else [])
                     @ layout @ [CHR 0x0A]) a,
                  Unlock])))"

definition highlight :: "'v runtime \<Rightarrow> 'v arg \<Rightarrow> 'v arg" where
  \<comment> \<open>\<open>consoleColorizer.ReplaceAllString(fmt.Sprintf("%s", a[index]), ...)\<close>\<close>
  "highlight env x =
     Text (ReplaceAll_keys (case x of Given v \<Rightarrow> Sprintf_s env v | Text s \<Rightarrow> s))"

definition log_console ::
  "'v runtime \<Rightarrow> ULog \<Rightarrow> Time \<Rightarrow> int \<Rightarrow> payload \<Rightarrow> string \<Rightarrow> 'v arg list
     \<Rightarrow> panic + 'v event list" where
  \<comment> \<open>the block \<open>if this.console\<close>. Replacing through a nil \<open>consoleColorizer\<close> and
      writing to a nil \<open>consoleHandle\<close> dereference nil.\<close>
  "log_console env this now severity xlayout layout a =
     (if \<not> console this then Inr []
      else
        let prefix =
              time_prefix (consoleTime this) now
              @ (if consoleSeverity this then
                   (if consoleColors this then
                      string_at severityColors severity @ string_at severityLabels severity
                        @ CHR 0x1B # ''[0m''
                    else string_at severityLabels severity)
                 else []);
            is_map = (case xlayout of MapVal j \<Rightarrow> True | _ \<Rightarrow> False)
        in if is_map \<and> consoleColors this \<and> a \<noteq> [] \<and> consoleColorizer this = None
           then Inl NilDereference
           else
             (case consoleHandle this of
                None \<Rightarrow> Inl NilDereference
              | Some w \<Rightarrow>
                  Inr [Lock,
                       ConsoleWrite w (prefix @ layout @ [CHR 0x0A])
                         (if is_map \<and> consoleColors this then map (highlight env) a else a),
                       Unlock]))"

text \<open>
  \<open>log\<close> returns the logger as the call leaves it and the events of the call, in
  order. A panic ends the call; the two panics of the console block apart, it happens
  before the first event.
\<close>

definition log ::
  "'v runtime \<Rightarrow> ULog \<Rightarrow> int \<Rightarrow> payload \<Rightarrow> 'v arg list
     \<Rightarrow> panic + (ULog \<times> 'v event list)" where
  "log env this severity xlayout a =
     (if level this < severity \<or> (\<not> syslog this \<and> \<not> file this \<and> \<not> console this)
      then Inr (this, [])
      else
        case log_layout xlayout a of
          Inl p \<Rightarrow> Inl p
        | Inr (layout, a') \<Rightarrow>
            let sent = log_syslog env this severity layout a';
                now = (if optionUTC (fst sent) then time_Now_UTC env else time_Now_Local env);
                written = log_file env (fst sent) now severity layout a'
            in case log_console env (fst written) now severity xlayout layout a' of
                 Inl p \<Rightarrow> Inl p
               | Inr shown \<Rightarrow> Inr (fst written, snd sent @ snd written @ shown))"

definition Error :: "'v runtime \<Rightarrow> ULog \<Rightarrow> payload \<Rightarrow> 'v arg list
     \<Rightarrow> panic + (ULog \<times> 'v event list)" where
  "Error env this layout a = log env this LOG_ERR layout a"

definition Warn :: "'v runtime \<Rightarrow> ULog \<Rightarrow> payload \<Rightarrow> 'v arg list
     \<Rightarrow> panic + (ULog \<times> 'v event list)" where
  "Warn env this layout a = log env this LOG_WARNING layout a"

definition Info :: "'v runtime \<Rightarrow> ULog \<Rightarrow> payload \<Rightarrow> 'v arg list
     \<Rightarrow> panic + (ULog \<times> 'v event list)" where
  "Info env this layout a = log env this LOG_INFO layout a"

definition Debug :: "'v runtime \<Rightarrow> ULog \<Rightarrow> payload \<Rightarrow> 'v arg list
     \<Rightarrow> panic + (ULog \<times> 'v event list)" where
  "Debug env this layout a = log env this LOG_DEBUG layout a"

text \<open>
  \<open>New\<close> allocates the struct with every field at its zero value and loads the
  descriptor. \<open>zero_Time\<close> is the zero \<open>time.Time\<close>: Monday, 1 January of the year 1,
  00:00:00 UTC, with what \<open>Format\<close> answers for the layouts of the program.
\<close>

definition zero_Time :: Time where
  "zero_Time =
     \<lparr>Year = 1, Month = 1, Day = 1, Hour = 0, Minute = 0, Second = 0, Nanosecond = 0,
      YearDay = 1, Weekday = 1, Unix = - 62135596800, ISOWeek = (1, 1),
      Format = (\<lambda>l. if l = ''Mon Jan 2 15:04:05 2006'' then ''Mon Jan 1 00:00:00 0001''
                 else if l = ''-0700'' then ''+0000'' else if l = ''MST'' then ''UTC''
                 else l)\<rparr>"

definition zero_ULog :: ULog where
  "zero_ULog =
     \<lparr>file = False, console = False, syslog = False, fileHandle = None, filePath = [],
      filePreviousPath = [], fileTime = 0, fileSeverity = False, consoleHandle = None,
      consoleTime = 0, consoleSeverity = False, consoleColors = False,
      consoleColorizer = None, syslogHandle = None, syslogRemote = [], syslogName = [],
      syslogFacility = 0, optionUTC = False, lastCheck = zero_Time, level = 0\<rparr>"

definition New :: "'v runtime \<Rightarrow> string \<Rightarrow> ULog" where
  "New env target = fst (Load env zero_ULog target)"

section \<open>A runtime for the examples\<close>

text \<open>
  The clock stands at \<open>example_time\<close> in a process whose local zone is UTC and which
  was started as \<open>/usr/bin/app\<close>. Every file opens as handle 1 and every syslog
  connection as handle 2. The caller's arguments are strings.
\<close>

definition epoch_Time :: Time where
  "epoch_Time =
     \<lparr>Year = 1970, Month = 1, Day = 1, Hour = 0, Minute = 0, Second = 0, Nanosecond = 0,
      YearDay = 1, Weekday = 4, Unix = 0, ISOWeek = (1970, 1),
      Format = (\<lambda>l. if l = ''Mon'' then ''Thu'' else if l = ''Monday'' then ''Thursday''
                 else if l = ''Mon Jan 2 15:04:05 2006'' then ''Thu Jan 1 00:00:00 1970''
                 else if l = ''-0700'' then ''+0000'' else if l = ''MST'' then ''UTC''
                 else l)\<rparr>"

definition example_env :: "string runtime" where
  "example_env =
     \<lparr>unicode_ToLower = (\<lambda>s. s), os_Args0 = ''/usr/bin/app'', time_Unix00 = epoch_Time,
      time_Now_UTC = example_time, time_Now_Local = example_time,
      syslog_Dial = (\<lambda>protocol remote facility name. Some 2),
      os_OpenFile = (\<lambda>path. Some 1), Sprintf_s = (\<lambda>s. s)\<rparr>"


section \<open>Properties of the time formatter\<close>

lemma byte_string_ascii: "(of_char c :: nat) < 128 \<Longrightarrow> byte_string c = [c]"
  by (simp add: byte_string_def)

lemma strftime_loop_literal:
  "CHR ''%'' \<notin> set layout \<Longrightarrow> strftime_loop base layout = map byte_string layout"
  by (induction base layout rule: strftime_loop.induct) auto





lemma concat_byte_strings_ascii:
  "isASCII layout \<Longrightarrow> concat (map byte_string layout) = layout"
  by (induction layout) (simp_all add: isASCII_def byte_string_ascii)

text \<open>
  A layout without any \<open>%\<close> whose bytes are all below 128 is returned unchanged,
  whatever the instant.
\<close>

lemma strftime_ascii_literal:
  "CHR ''%'' \<notin> set layout \<Longrightarrow> isASCII layout \<Longrightarrow> strftime layout base = layout"
  by (simp add: strftime_def strftime_loop_literal concat_byte_strings_ascii)

text \<open>
  C3. The formatter does not return every layout without \<open>%\<close> unchanged. The layout
  \<open>caf\<close> followed by the bytes C3 A9, the UTF-8 text of the word with an acute e, has no
  \<open>%\<close>; the formatter returns \<open>caf\<close> followed by the four bytes C3 83 C2 A9, since
  each byte from 128 on goes through \<open>string(layout[index])\<close> and comes out as the
  two-byte encoding of its number.
\<close>

theorem strftime_literal_non_ascii:
  "CHR ''%'' \<notin> set (''caf'' @ [CHR 0xC3, CHR 0xA9]) \<and>
   strftime (''caf'' @ [CHR 0xC3, CHR 0xA9]) example_time
     = ''caf'' @ [CHR 0xC3, CHR 0x83, CHR 0xC2, CHR 0xA9] \<and>
   strftime (''caf'' @ [CHR 0xC3, CHR 0xA9]) example_time \<noteq> ''caf'' @ [CHR 0xC3, CHR 0xA9]"
  by code_simp



lemma strftime_loop_trailing_percent:
  "layout = [] \<or> last layout \<noteq> CHR ''%'' \<Longrightarrow>
   strftime_loop base (layout @ ''%'') = strftime_loop base layout"
proof (induction base layout rule: strftime_loop.induct)
  case (1 base)
  show ?case by simp
next
  case (2 base c)
  then show ?case by simp
next
  case (3 base c d rest)
  show ?case
  proof (cases "c = CHR ''%''")
    case True
    from "3.prems" have "rest = [] \<or> last rest \<noteq> CHR ''%''"
      by (auto split: if_splits)
    with True "3.IH"(1) show ?thesis by simp
  next
    case False
    from "3.prems" have "d # rest = [] \<or> last (d # rest) \<noteq> CHR ''%''"
      by simp
    with False "3.IH"(2) show ?thesis by simp
  qed
qed

text \<open>
  C10. A \<open>%\<close> in the last position of the layout contributes nothing: appending \<open>%\<close> to
  a layout that does not end in \<open>%\<close> leaves the result as it was.
\<close>

theorem strftime_trailing_percent:
  "layout = [] \<or> last layout \<noteq> CHR ''%'' \<Longrightarrow>
   strftime (layout @ ''%'') base = strftime layout base"
  by (simp add: strftime_def strftime_loop_trailing_percent)

theorem strftime_trailing_percent_witness:
  "(''x-%H'' = [] \<or> last ''x-%H'' \<noteq> CHR ''%'') \<and>
   strftime (''x-%H'' @ ''%'') example_time = strftime ''x-%H'' example_time \<and>
   strftime ''x-%H'' example_time = ''x-08''"
proof -
  have hour: "strftime ''x-%H'' example_time = ''x-08''"
    by code_simp
  from strftime_trailing_percent [of "''x-%H''" example_time] hour
  show ?thesis by simp
qed

section \<open>Properties of the parser\<close>

text \<open>
  A loop that assigns a field on some iterations leaves the last value assigned, or the
  value before the loop where no iteration assigns.
\<close>

lemma foldl_last_assignment:
  assumes "\<And>s x. sel (f s x) = (if vals x = [] then sel s else g (last (vals x)))"
  shows "sel (foldl f s xs) =
           (if concat (map vals xs) = [] then sel s else g (last (concat (map vals xs))))"
proof (induction xs rule: rev_induct)
  case Nil
  show ?case by simp
next
  case (snoc x xs)
  show ?case
  proof (cases "vals x = []")
    case True
    with snoc assms show ?thesis by simp
  next
    case False
    with assms show ?thesis by simp
  qed
qed

lemma foldl_preserves:
  assumes "\<And>s x. sel (f s x) = sel s"
  shows "sel (foldl f s xs) = sel s"
  by (induction xs rule: rev_induct) (simp_all add: assms)

lemma foldl_invariant:
  assumes "P s" and "\<And>s x. P s \<Longrightarrow> P (f s x)"
  shows "P (foldl f s xs)"
  using assms(1) by (induction xs rule: rev_induct) (simp_all add: assms(2))

lemma Load_file_frame:
  "(\<lambda>s. (file s, syslogFacility s, level s)) (foldl (Load_file env) s xs)
     = (file s, syslogFacility s, level s)"
  by (rule foldl_preserves [where sel = "\<lambda>s. (file s, syslogFacility s, level s)"])
     (simp add: Load_file_def Let_def)

lemma Load_console_frame:
  "(\<lambda>s. (file s, filePath s, syslogFacility s, level s)) (foldl (Load_console env) s xs)
     = (file s, filePath s, syslogFacility s, level s)"
  by (rule foldl_preserves [where sel = "\<lambda>s. (file s, filePath s, syslogFacility s, level s)"])
     (simp add: Load_console_def Let_def)

lemma Load_syslog_frame:
  "(\<lambda>s. (file s, filePath s, level s)) (foldl (Load_syslog env) s xs)
     = (file s, filePath s, level s)"
  by (rule foldl_preserves [where sel = "\<lambda>s. (file s, filePath s, level s)"])
     (simp add: Load_syslog_def Let_def)

lemma Load_option_frame:
  "(\<lambda>s. (file s, filePath s, syslogFacility s)) (foldl (Load_option env) s xs)
     = (file s, filePath s, syslogFacility s)"
  by (rule foldl_preserves [where sel = "\<lambda>s. (file s, filePath s, syslogFacility s)"])
     (simp add: Load_option_def Let_def)

lemma Load_option_level:
  "level (foldl (Load_option env) s (FindAll_options body)) =
     (if option_values env ''level'' body = [] then level s
      else priority_at severities
             (ToLower env (ToLower env (last (option_values env ''level'' body)))))"
  unfolding option_values_def
  by (rule foldl_last_assignment
        [where sel = level and g = "\<lambda>v. priority_at severities (ToLower env (ToLower env v))"])
     (simp add: Load_option_def Let_def)

lemma Load_syslog_facility:
  "syslogFacility (foldl (Load_syslog env) s (FindAll_options body)) =
     (if option_values env ''facility'' body = [] then syslogFacility s
      else priority_at facilities (ToLower env (last (option_values env ''facility'' body))))"
  unfolding option_values_def
  by (rule foldl_last_assignment
        [where sel = syslogFacility and g = "\<lambda>v. priority_at facilities (ToLower env v)"])
     (simp add: Load_syslog_def Let_def)

lemma Load_file_path:
  "filePath (foldl (Load_file env) s (FindAll_options body)) =
     (if option_values env ''path'' body = [] then filePath s
      else last (option_values env ''path'' body))"
  unfolding option_values_def
  by (rule foldl_last_assignment [where sel = filePath and g = "\<lambda>v. v"])
     (simp add: Load_file_def Let_def)

lemma Load_directive_level:
  "level (Load_directive env s d) =
     (if (if ToLower env (fst d) = ''option'' then option_values env ''level'' (snd d) else [])
          = [] then level s
      else priority_at severities (ToLower env (ToLower env (last
             (if ToLower env (fst d) = ''option'' then option_values env ''level'' (snd d)
              else [])))))"
  using Load_file_frame [of env "s\<lparr>file := True\<rparr>" "FindAll_options (snd d)"]
    Load_console_frame [of env "s\<lparr>console := True\<rparr>" "FindAll_options (snd d)"]
    Load_syslog_frame [of env "s\<lparr>syslog := True\<rparr>" "FindAll_options (snd d)"]
  by (simp add: Load_directive_def Let_def Load_option_level)

lemma Load_directive_facility:
  "syslogFacility (Load_directive env s d) =
     (if (if ToLower env (fst d) = ''syslog'' then option_values env ''facility'' (snd d)
          else []) = [] then syslogFacility s
      else priority_at facilities (ToLower env (last
             (if ToLower env (fst d) = ''syslog'' then option_values env ''facility'' (snd d)
              else []))))"
  using Load_file_frame [of env "s\<lparr>file := True\<rparr>" "FindAll_options (snd d)"]
    Load_console_frame [of env "s\<lparr>console := True\<rparr>" "FindAll_options (snd d)"]
    Load_option_frame [of env s "FindAll_options (snd d)"]
  by (simp add: Load_directive_def Let_def Load_syslog_facility)

lemma Load_directive_path:
  "filePath (Load_directive env s d) =
     (if (if ToLower env (fst d) = ''file'' then option_values env ''path'' (snd d) else [])
          = [] then filePath s
      else last (if ToLower env (fst d) = ''file'' then option_values env ''path'' (snd d)
                 else []))"
  using Load_console_frame [of env "s\<lparr>console := True\<rparr>" "FindAll_options (snd d)"]
    Load_syslog_frame [of env "s\<lparr>syslog := True\<rparr>" "FindAll_options (snd d)"]
    Load_option_frame [of env s "FindAll_options (snd d)"]
  by (simp add: Load_directive_def Let_def Load_file_path)

lemma Load_directive_file:
  "file s \<longrightarrow> filePath s \<noteq> [] \<Longrightarrow>
   file (Load_directive env s d) \<longrightarrow> filePath (Load_directive env s d) \<noteq> []"
  using Load_console_frame [of env "s\<lparr>console := True\<rparr>" "FindAll_options (snd d)"]
    Load_syslog_frame [of env "s\<lparr>syslog := True\<rparr>" "FindAll_options (snd d)"]
    Load_option_frame [of env s "FindAll_options (snd d)"]
  by (simp add: Load_directive_def Let_def)

lemma Load_level:
  "level (fst (Load env this target)) =
     (if key_values env ''option'' ''level'' target = [] then LOG_INFO
      else priority_at severities
             (ToLower env (ToLower env (last (key_values env ''option'' ''level'' target)))))"
  unfolding key_values_def Load_def Let_def fst_conv
  by (subst foldl_last_assignment
        [where sel = level and g = "\<lambda>v. priority_at severities (ToLower env (ToLower env v))",
         OF Load_directive_level])
     (simp add: Load_defaults_def)

lemma Load_facility:
  "syslogFacility (fst (Load env this target)) =
     (if key_values env ''syslog'' ''facility'' target = [] then LOG_DAEMON
      else priority_at facilities
             (ToLower env (last (key_values env ''syslog'' ''facility'' target))))"
  unfolding key_values_def Load_def Let_def fst_conv
  by (subst foldl_last_assignment
        [where sel = syslogFacility and g = "\<lambda>v. priority_at facilities (ToLower env v)",
         OF Load_directive_facility])
     (simp add: Load_defaults_def)

lemma Load_path:
  "filePath (fst (Load env this target)) =
     (if key_values env ''file'' ''path'' target = [] then []
      else last (key_values env ''file'' ''path'' target))"
  unfolding key_values_def Load_def Let_def fst_conv
  by (subst foldl_last_assignment [where sel = filePath and g = "\<lambda>v. v",
         OF Load_directive_path])
     (simp add: Load_defaults_def)

lemma Load_file_needs_path:
  "file (fst (Load env this target)) \<longrightarrow> filePath (fst (Load env this target)) \<noteq> []"
  unfolding Load_def Let_def fst_conv
  by (rule foldl_invariant [where P = "\<lambda>s. file s \<longrightarrow> filePath s \<noteq> []"])
     (simp_all add: Load_defaults_def Load_directive_file)

lemma Load_directive_consoleHandle:
  assumes "consoleHandle s \<noteq> None"
  shows "consoleHandle (Load_directive env s d) \<noteq> None"
proof -
  let ?P = "\<lambda>s. consoleHandle s \<noteq> None"
  have 1: "?P (foldl (Load_file env) (s\<lparr>file := True\<rparr>) (FindAll_options (snd d)))"
    by (rule foldl_invariant [where P = ?P]) (simp_all add: assms Load_file_def Let_def)
  have 2: "?P (foldl (Load_console env) (s\<lparr>console := True\<rparr>) (FindAll_options (snd d)))"
    by (rule foldl_invariant [where P = ?P]) (simp_all add: assms Load_console_def Let_def)
  have 3: "?P (foldl (Load_syslog env) (s\<lparr>syslog := True\<rparr>) (FindAll_options (snd d)))"
    by (rule foldl_invariant [where P = ?P]) (simp_all add: assms Load_syslog_def Let_def)
  have 4: "?P (foldl (Load_option env) s (FindAll_options (snd d)))"
    by (rule foldl_invariant [where P = ?P]) (simp_all add: assms Load_option_def Let_def)
  from 1 2 3 4 assms show ?thesis
    by (simp add: Load_directive_def Let_def)
qed

lemma Load_consoleHandle: "consoleHandle (fst (Load env this target)) \<noteq> None"
  unfolding Load_def Let_def fst_conv
  by (rule foldl_invariant [where P = "\<lambda>s. consoleHandle s \<noteq> None"])
     (simp_all add: Load_defaults_def Load_directive_consoleHandle)

text \<open>
  C8. When no \<open>file\<close> directive of the descriptor has a \<open>path\<close> key, the file sink
  is disabled after \<open>Load\<close>, although a \<open>file\<close> directive may be present.
\<close>

theorem Load_file_without_path:
  assumes "\<forall>d \<in> set (FindAll_directives target). ToLower env (fst d) = ''file'' \<longrightarrow>
             (\<forall>option \<in> set (FindAll_options (snd d)). ToLower env (fst option) \<noteq> ''path'')"
  shows "\<not> file (fst (Load env this target))"
proof -
  from assms have "key_values env ''file'' ''path'' target = []"
    by (auto simp: key_values_def option_values_def)
  then have "filePath (fst (Load env this target)) = []"
    by (simp add: Load_path)
  with Load_file_needs_path [of env this target] show ?thesis by blast
qed

theorem Load_file_without_path_witness:
  "FindAll_directives ''file(time=stamp, severity=0) console()''
     = [(''file'', ''time=stamp, severity=0''), (''console'', [])] \<and>
   FindAll_options ''time=stamp, severity=0'' = [(''time'', ''stamp''), (''severity'', ''0'')] \<and>
   ToLower example_env ''time'' \<noteq> ''path'' \<and> ToLower example_env ''severity'' \<noteq> ''path'' \<and>
   \<not> file (fst (Load example_env zero_ULog ''file(time=stamp, severity=0) console()''))"
proof -
  have ds: "FindAll_directives ''file(time=stamp, severity=0) console()''
      = [(''file'', ''time=stamp, severity=0''), (''console'', [])]"
    by code_simp
  have os: "FindAll_options ''time=stamp, severity=0''
      = [(''time'', ''stamp''), (''severity'', ''0'')]"
    by code_simp
  have os': "FindAll_options [] = []"
    by code_simp
  have low: "ToLower example_env ''time'' \<noteq> ''path''"
    "ToLower example_env ''severity'' \<noteq> ''path''"
    by code_simp+
  have h: "\<forall>d \<in> set (FindAll_directives ''file(time=stamp, severity=0) console()'').
      ToLower example_env (fst d) = ''file'' \<longrightarrow>
        (\<forall>option \<in> set (FindAll_options (snd d)).
           ToLower example_env (fst option) \<noteq> ''path'')"
    by (simp add: ds os os' low)
  from Load_file_without_path [OF h] ds os low show ?thesis by blast
qed

text \<open>
  C2, as the code has it. \<open>Load\<close> starts from the facility \<open>LOG_DAEMON\<close>. Where no
  \<open>syslog\<close> directive has a \<open>facility\<close> key, that default stays; where the last
  \<open>facility\<close> key has a value that is not a key of \<open>facilities\<close> after \<open>ToLower\<close>,
  the facility is the zero value.
\<close>

theorem Load_facility_default_or_zero:
  "(key_values env ''syslog'' ''facility'' target = [] \<longrightarrow>
      syslogFacility (fst (Load env this target)) = LOG_DAEMON) \<and>
   (key_values env ''syslog'' ''facility'' target \<noteq> [] \<and>
    facilities (ToLower env (last (key_values env ''syslog'' ''facility'' target))) = None \<longrightarrow>
      syslogFacility (fst (Load env this target)) = 0)"
  by (simp add: Load_facility priority_at_def)

theorem Load_facility_default_or_zero_witness:
  "key_values example_env ''syslog'' ''facility'' ''syslog(name=app)'' = [] \<and>
   syslogFacility (fst (Load example_env zero_ULog ''syslog(name=app)'')) = LOG_DAEMON \<and>
   key_values example_env ''syslog'' ''facility'' ''syslog(facility=mail)'' \<noteq> [] \<and>
   facilities (ToLower example_env
     (last (key_values example_env ''syslog'' ''facility'' ''syslog(facility=mail)''))) = None \<and>
   syslogFacility (fst (Load example_env zero_ULog ''syslog(facility=mail)'')) = 0"
proof -
  have a: "key_values example_env ''syslog'' ''facility'' ''syslog(name=app)'' = []"
    by code_simp
  have b: "key_values example_env ''syslog'' ''facility'' ''syslog(facility=mail)'' \<noteq> []"
    by code_simp
  have c: "facilities (ToLower example_env
     (last (key_values example_env ''syslog'' ''facility'' ''syslog(facility=mail)''))) = None"
    by code_simp
  from a b c
    Load_facility_default_or_zero [of example_env "''syslog(name=app)''" zero_ULog]
    Load_facility_default_or_zero [of example_env "''syslog(facility=mail)''" zero_ULog]
  show ?thesis by blast
qed

theorem Load_facility_absent_counterexample:
  "syslog (fst (Load example_env zero_ULog ''syslog(name=app)'')) \<and>
   key_values example_env ''syslog'' ''facility'' ''syslog(name=app)'' = [] \<and>
   syslogFacility (fst (Load example_env zero_ULog ''syslog(name=app)'')) = 24 \<and>
   syslogFacility (fst (Load example_env zero_ULog ''syslog(name=app)'')) \<noteq> 0"
  by code_simp

text \<open>
  C9. \<open>SetLevel\<close> assigns the level exactly when the name, after \<open>ToLower\<close>, is one of
  \<open>error\<close>, \<open>warning\<close>, \<open>info\<close> and \<open>debug\<close>; for every other name it returns the
  logger as it was. It has no error result.
\<close>

theorem SetLevel_known_or_unchanged:
  "(ToLower env name = ''error'' \<longrightarrow> SetLevel env this name = this\<lparr>level := LOG_ERR\<rparr>) \<and>
   (ToLower env name = ''warning'' \<longrightarrow> SetLevel env this name = this\<lparr>level := LOG_WARNING\<rparr>) \<and>
   (ToLower env name = ''info'' \<longrightarrow> SetLevel env this name = this\<lparr>level := LOG_INFO\<rparr>) \<and>
   (ToLower env name = ''debug'' \<longrightarrow> SetLevel env this name = this\<lparr>level := LOG_DEBUG\<rparr>) \<and>
   (ToLower env name \<notin> {''error'', ''warning'', ''info'', ''debug''} \<longrightarrow>
      SetLevel env this name = this)"
  by (simp add: SetLevel_def Let_def)

theorem SetLevel_known_or_unchanged_witness:
  "ToLower example_env ''WARNING'' = ''warning'' \<and>
   SetLevel example_env (New example_env ''console()'') ''WARNING''
     = (New example_env ''console()'')\<lparr>level := LOG_WARNING\<rparr> \<and>
   ToLower example_env ''bogus'' \<notin> {''error'', ''warning'', ''info'', ''debug''} \<and>
   SetLevel example_env (New example_env ''console()'') ''bogus'' = New example_env ''console()''"
proof -
  have a: "ToLower example_env ''WARNING'' = ''warning''"
    by code_simp
  have b: "ToLower example_env ''bogus'' \<notin> {''error'', ''warning'', ''info'', ''debug''}"
    by code_simp
  from a b
    SetLevel_known_or_unchanged [of example_env "''WARNING''" "New example_env ''console()''"]
    SetLevel_known_or_unchanged [of example_env "''bogus''" "New example_env ''console()''"]
  show ?thesis by blast
qed

section \<open>Properties of the dispatcher\<close>

lemma log_filtered:
  "level this < severity \<or> (\<not> syslog this \<and> \<not> file this \<and> \<not> console this) \<Longrightarrow>
   log env this severity xlayout a = Inr (this, [])"
  by (simp add: log_def)

lemma leading_Nil: "leading ps [] = 0"
proof -
  have "find (\<lambda>p. p \<noteq> [] \<and> take (length p) [] = p) ps = None"
    by (auto simp: find_None_iff)
  then show ?thesis by (simp add: leading_def)
qed

lemma TrimSpace_Nil: "TrimSpace [] = []"
  by (simp add: TrimSpace_def TrimLeft.simps [of _ "[]"] leading_Nil)

text \<open>
  C4. When the severity is numerically above the level of the logger, that is, less
  urgent than the configured minimum, or when no sink is enabled, \<open>log\<close> returns at
  once: the logger is as it was, and there is no event at all, so no write, no dial, no
  open and no lock. This holds for every payload, the nil one included.
\<close>

theorem log_filter_returns_at_once:
  "level this < severity \<or> (\<not> syslog this \<and> \<not> file this \<and> \<not> console this) \<Longrightarrow>
   log env this severity xlayout a = Inr (this, [])"
  by (rule log_filtered)

theorem log_filter_returns_at_once_witness:
  "(level (New example_env ''console()'') < LOG_DEBUG \<or>
      (\<not> syslog (New example_env ''console()'') \<and> \<not> file (New example_env ''console()'')
       \<and> \<not> console (New example_env ''console()''))) \<and>
   log example_env (New example_env ''console()'') LOG_DEBUG (Str ''detail'') []
     = Inr (New example_env ''console()'', []) \<and>
   (level (New example_env ''file(time=1)'') < LOG_ERR \<or>
      (\<not> syslog (New example_env ''file(time=1)'') \<and> \<not> file (New example_env ''file(time=1)'')
       \<and> \<not> console (New example_env ''file(time=1)''))) \<and>
   log example_env (New example_env ''file(time=1)'') LOG_ERR Nil []
     = Inr (New example_env ''file(time=1)'', [])"
proof -
  have a: "level (New example_env ''console()'') < LOG_DEBUG"
    by code_simp
  have b: "\<not> syslog (New example_env ''file(time=1)'') \<and> \<not> file (New example_env ''file(time=1)'')
       \<and> \<not> console (New example_env ''file(time=1)'')"
    by code_simp
  from a b
    log_filter_returns_at_once [of "New example_env ''console()''" LOG_DEBUG example_env
      "Str ''detail''" "[]"]
    log_filter_returns_at_once [of "New example_env ''file(time=1)''" LOG_ERR example_env
      Nil "[]"]
  show ?thesis by blast
qed

lemma log_console_Other:
  "log_console env this now severity (Str s) layout a
     = log_console env this now severity Other layout a"
  by (simp add: log_console_def Let_def)

lemma log_console_Other_returns:
  "consoleHandle this \<noteq> None \<Longrightarrow>
   \<exists>events. log_console env this now severity Other layout a = Inr events"
  by (auto simp: log_console_def Let_def)

lemma log_syslog_consoleHandle:
  "consoleHandle (fst (log_syslog env this severity layout a)) = consoleHandle this"
  by (simp add: log_syslog_def Let_def)

lemma log_file_consoleHandle:
  "consoleHandle (fst (log_file env this now severity layout a)) = consoleHandle this"
  by (simp add: log_file_def file_check_def file_rotate_def file_open_def Let_def
      split: option.split)

text \<open>
  C5. When the call passes the filter, a nil payload panics: \<open>reflect.TypeOf\<close>
  returns nil for it and \<open>Kind\<close> is called on that. A payload of a kind other than
  string and map is no error: its layout is the empty string, the call does what it does
  for the empty string as the payload, and it returns for every logger that has a
  console stream, as every logger has after \<open>Load\<close>.
\<close>

theorem log_payload_kinds:
  "\<not> level this < severity \<and> (syslog this \<or> file this \<or> console this) \<longrightarrow>
     log env this severity Nil a = Inl NilDereference \<and>
     log_layout Other a = Inr ([], a) \<and>
     log env this severity Other a = log env this severity (Str []) a \<and>
     (consoleHandle this \<noteq> None \<longrightarrow>
        (\<exists>this' events. log env this severity Other a = Inr (this', events)))"
proof (intro impI conjI)
  assume pass: "\<not> level this < severity \<and> (syslog this \<or> file this \<or> console this)"
  then show "log env this severity Nil a = Inl NilDereference"
    by (simp add: log_def log_layout_def)
  show "log_layout Other a = Inr ([], a)"
    by (simp add: log_layout_def TrimSpace_Nil)
  show "log env this severity Other a = log env this severity (Str []) a"
    by (simp add: log_def log_layout_def TrimSpace_Nil log_console_Other)
  assume handle: "consoleHandle this \<noteq> None"
  let ?sent = "log_syslog env this severity [] a"
  let ?now = "if optionUTC (fst ?sent) then time_Now_UTC env else time_Now_Local env"
  let ?written = "log_file env (fst ?sent) ?now severity [] a"
  from pass
  have filter: "(level this < severity \<or> (\<not> syslog this \<and> \<not> file this \<and> \<not> console this))
      = False"
    by blast
  from handle have "consoleHandle (fst ?written) \<noteq> None"
    by (simp add: log_file_consoleHandle log_syslog_consoleHandle)
  then obtain events where
    shown: "log_console env (fst ?written) ?now severity Other [] a = Inr events"
    using log_console_Other_returns by blast
  have "log env this severity Other a =
      (case log_console env (fst ?written) ?now severity Other [] a of
         Inl p \<Rightarrow> Inl p
       | Inr shown \<Rightarrow> Inr (fst ?written, snd ?sent @ snd ?written @ shown))"
    unfolding log_def filter by (simp add: log_layout_def TrimSpace_Nil Let_def)
  with shown have "log env this severity Other a
      = Inr (fst ?written, snd ?sent @ snd ?written @ events)"
    by simp
  then show "\<exists>this' events. log env this severity Other a = Inr (this', events)"
    by blast
qed

theorem log_payload_kinds_witness:
  "\<not> level (New example_env ''console(colors=0)'') < LOG_ERR \<and>
   (syslog (New example_env ''console(colors=0)'') \<or> file (New example_env ''console(colors=0)'')
      \<or> console (New example_env ''console(colors=0)'')) \<and>
   Error example_env (New example_env ''console(colors=0)'') Nil [] = Inl NilDereference \<and>
   consoleHandle (New example_env ''console(colors=0)'') \<noteq> None \<and>
   map_sum (\<lambda>p. p) snd (Error example_env (New example_env ''console(colors=0)'') Other [])
     = Inr [Lock, ConsoleWrite Stderr (''2024-03-05 08:00:00 ERRO '' @ [CHR 0x0A]) [], Unlock]"
proof -
  have a: "\<not> level (New example_env ''console(colors=0)'') < LOG_ERR"
    by code_simp
  have b: "console (New example_env ''console(colors=0)'')"
    by code_simp
  have c: "map_sum (\<lambda>p. p) snd
      (Error example_env (New example_env ''console(colors=0)'') Other [])
     = Inr [Lock, ConsoleWrite Stderr (''2024-03-05 08:00:00 ERRO '' @ [CHR 0x0A]) [], Unlock]"
    by code_simp
  have d: "consoleHandle (New example_env ''console(colors=0)'') \<noteq> None"
    by (simp add: New_def Load_consoleHandle)
  from a b c d
    log_payload_kinds [of "New example_env ''console(colors=0)''" LOG_ERR example_env "[]"]
  show ?thesis by (simp add: Error_def)
qed



text \<open>
  C1, as the code has it. When the last \<open>level\<close> key of the \<open>option\<close> directives has
  a value that is not a key of \<open>severities\<close> after \<open>ToLower\<close>, the level is the zero
  value of \<open>syslog.Priority\<close>. That is \<open>LOG_EMERG\<close>, below \<open>LOG_ERR = 3\<close>: the test
  \<open>this.level < severity\<close> then holds for each of the four severities that the logger
  emits, and every call returns at once, without any event, whatever sinks are enabled.
\<close>

theorem Load_unknown_level_is_zero:
  assumes "key_values env ''option'' ''level'' target \<noteq> []"
    and "severities (ToLower env (ToLower env (last (key_values env ''option'' ''level'' target))))
           = None"
  shows "level (fst (Load env this target)) = LOG_EMERG \<and>
         level (fst (Load env this target)) < LOG_ERR \<and>
         (\<forall>severity \<in> {LOG_ERR, LOG_WARNING, LOG_INFO, LOG_DEBUG}.
            log env (fst (Load env this target)) severity xlayout a
              = Inr (fst (Load env this target), []))"
proof -
  from assms have zero: "level (fst (Load env this target)) = 0"
    by (simp add: Load_level priority_at_def)
  then have "\<And>severity. severity \<in> {LOG_ERR, LOG_WARNING, LOG_INFO, LOG_DEBUG} \<Longrightarrow>
      level (fst (Load env this target)) < severity"
    by auto
  with zero show ?thesis
    by (simp add: log_filtered)
qed

theorem Load_unknown_level_is_zero_witness:
  "key_values example_env ''option'' ''level'' ''console() option(level=verbose)'' \<noteq> [] \<and>
   severities (ToLower example_env (ToLower example_env
     (last (key_values example_env ''option'' ''level'' ''console() option(level=verbose)''))))
     = None \<and>
   level (fst (Load example_env zero_ULog ''console() option(level=verbose)'')) = LOG_EMERG \<and>
   log example_env (fst (Load example_env zero_ULog ''console() option(level=verbose)''))
     LOG_ERR (Str ''boom'') []
     = Inr (fst (Load example_env zero_ULog ''console() option(level=verbose)''), []) \<and>
   log example_env (fst (Load example_env zero_ULog ''console() option(level=verbose)''))
     LOG_DEBUG (Str ''boom'') []
     = Inr (fst (Load example_env zero_ULog ''console() option(level=verbose)''), [])"
proof -
  have h1: "key_values example_env ''option'' ''level'' ''console() option(level=verbose)'' \<noteq> []"
    by code_simp
  have h2: "severities (ToLower example_env (ToLower example_env
     (last (key_values example_env ''option'' ''level'' ''console() option(level=verbose)''))))
     = None"
    by code_simp
  from Load_unknown_level_is_zero [OF h1 h2, of zero_ULog "Str ''boom''" "[]"] h1 h2
  show ?thesis by blast
qed

theorem Load_unknown_level_counterexample:
  "key_values example_env ''option'' ''level'' ''console() option(level=verbose)''
     = [''verbose''] \<and>
   console (New example_env ''console() option(level=verbose)'') \<and>
   level (New example_env ''console() option(level=verbose)'') = 0 \<and>
   Error example_env (New example_env ''console() option(level=verbose)'') (Str ''boom'') []
     = Inr (New example_env ''console() option(level=verbose)'', [])"
proof -
  have a: "key_values example_env ''option'' ''level'' ''console() option(level=verbose)''
     = [''verbose'']"
    by code_simp
  have b: "console (New example_env ''console() option(level=verbose)'')"
    by code_simp
  have c: "level (New example_env ''console() option(level=verbose)'') = 0"
    by code_simp
  from c have "level (New example_env ''console() option(level=verbose)'') < LOG_ERR"
    by simp
  then have "log example_env (New example_env ''console() option(level=verbose)'') LOG_ERR
      (Str ''boom'') [] = Inr (New example_env ''console() option(level=verbose)'', [])"
    by (simp add: log_filtered)
  with a b c show ?thesis by (simp add: Error_def)
qed


end
